theory Spec2Isabelle
  imports Main "HOL-Library.Char_ord" "HOL-Library.List_Lexorder"
begin

section \<open>Data of the monitoring service\<close>

text \<open>The model follows \<^verbatim>\<open>monitoring_service/server.py\<close>.
  Python ints are \<open>int\<close>, addresses, hashes, keys and signatures are strings,
  the set \<^verbatim>\<open>open_channels\<close> is an \<open>int set\<close>, the
  dictionary \<^verbatim>\<open>state_db.monitor_requests\<close> is a map from channel
  identifiers to requests, and the lists of listeners and of spawned tasks are lists.\<close>

type_synonym address = string

text \<open>\<^verbatim>\<open>raiden_libs.messages.BalanceProof\<close>, with the keyword
  arguments that \<^verbatim>\<open>on_channel_close\<close> passes to its constructor.\<close>

record balance_proof =
  bp_channel_identifier :: int
  bp_token_network_address :: address
  bp_balance_hash :: string
  bp_nonce :: int
  bp_additional_hash :: string
  bp_chain_id :: int
  bp_signature :: string

text \<open>\<^verbatim>\<open>raiden_libs.messages.MonitorRequest\<close>: the server reads
  only \<^verbatim>\<open>monitor_request.balance_proof.channel_identifier\<close>; the
  other fields are the payload of the message.\<close>

record monitor_request =
  mr_balance_proof :: balance_proof
  mr_non_closing_signature :: string
  mr_reward_amount :: int
  mr_monitor_address :: address
  mr_reward_proof_signature :: string

text \<open>Messages received over the transport:
  \<^verbatim>\<open>on_message_event\<close> tells a
  \<^verbatim>\<open>MonitorRequest\<close> from every other
  \<^verbatim>\<open>Message\<close>.\<close>

datatype message = MonitorRequestMessage monitor_request | OtherMessage string

text \<open>The exceptions the server can raise: a failed \<^verbatim>\<open>assert\<close>,
  and the two exceptions of \<^verbatim>\<open>monitoring_service.exceptions\<close> raised
  by the constructor.\<close>

datatype error =
    AssertionError
  | StateDBInvalid string
  | ServiceNotRegistered address address

text \<open>The greenlets of \<^verbatim>\<open>monitoring_service.tasks\<close> that the
  server spawns, each with the arguments of its constructor call
  (\<^verbatim>\<open>StoreMonitorRequest\<close> also receives the shared
  \<^verbatim>\<open>web3\<close> and \<^verbatim>\<open>state_db\<close> objects).\<close>

datatype task =
    OnChannelClose address monitor_request string
  | OnChannelSettle monitor_request address string
  | StoreMonitorRequest monitor_request

text \<open>The callbacks registered with \<^verbatim>\<open>add_confirmed_listener\<close>.\<close>

datatype callback = handle_token_network_created_callback | on_channel_event_callback

text \<open>A \<^verbatim>\<open>BlockchainListener\<close> or
  \<^verbatim>\<open>BlockchainMonitor\<close>: the keyword arguments of its constructor,
  its confirmed callbacks, and whether \<^verbatim>\<open>start()\<close> was called.\<close>

record listener =
  l_contract_name :: string
  l_contract_address :: address
  l_required_confirmations :: int
  l_poll_interval :: int
  l_sync_start_block :: int
  l_confirmed_callbacks :: "callback list"
  l_started :: bool

text \<open>Modelled from the spec: \<^verbatim>\<open>StateDBSqlite\<close>
  (monitoring_service/state_db.py is not among the sources). The server uses
  \<^verbatim>\<open>is_initialized()\<close>, \<^verbatim>\<open>setup_db(...)\<close>,
  \<^verbatim>\<open>chain_id()\<close>, \<^verbatim>\<open>server_address()\<close>,
  \<^verbatim>\<open>monitoring_contract_address()\<close>, the dictionary
  \<^verbatim>\<open>monitor_requests\<close> and
  \<^verbatim>\<open>delete_monitor_request(channel_id)\<close>; the persisted state holds
  the chain id, the monitoring contract address and the address of the service, and the
  stored monitor requests.\<close>

record state_db =
  db_initialized :: bool
  db_chain_id :: int
  db_server_address :: address
  db_monitoring_contract_address :: address
  db_monitor_requests :: "int \<rightharpoonup> monitor_request"

text \<open>Modelled from the spec: \<^verbatim>\<open>StateDBSqlite.setup_db\<close>
  records the chain id, the monitoring contract address and the address of the service in a
  new database (BlockchainState, section 3).\<close>

definition setup_db :: "state_db \<Rightarrow> int \<Rightarrow> address \<Rightarrow> address \<Rightarrow> state_db" where
  "setup_db db chain_id monitor_contract_address receiver =
     db\<lparr>db_initialized := True, db_chain_id := chain_id,
        db_server_address := receiver,
        db_monitoring_contract_address := monitor_contract_address\<rparr>"

text \<open>Modelled from the spec:
  \<^verbatim>\<open>StateDBSqlite.delete_monitor_request\<close> removes the request stored
  for a channel identifier (a request without a live channel is pruned, section 3).\<close>

definition delete_monitor_request :: "state_db \<Rightarrow> int \<Rightarrow> state_db" where
  "delete_monitor_request db channel_id =
     db\<lparr>db_monitor_requests := (db_monitor_requests db)(channel_id := None)\<rparr>"

text \<open>What the server takes from outside the repository and from the node, as
  parameters: the predicates of \<^verbatim>\<open>eth_utils\<close> and
  \<^verbatim>\<open>raiden_libs.utils\<close>, the constructor of
  \<^verbatim>\<open>BalanceProof\<close> (which may raise),
  \<^verbatim>\<open>encode_hex\<close>, the chain id
  \<^verbatim>\<open>int(web3.version.network)\<close> and the answer of
  \<^verbatim>\<open>is_service_registered\<close> for a monitoring contract and a service
  address.\<close>

record env =
  is_address :: "address \<Rightarrow> bool"
  is_checksum_address :: "address \<Rightarrow> bool"
  is_same_address :: "address \<Rightarrow> address \<Rightarrow> bool"
  is_channel_identifier :: "int \<Rightarrow> bool"
  private_key_to_address :: "string \<Rightarrow> address"
  encode_hex :: "string \<Rightarrow> string"
  BalanceProof :: "balance_proof \<Rightarrow> error + balance_proof"
  web3_version_network :: int
  is_service_registered :: "address \<Rightarrow> address \<Rightarrow> bool"

text \<open>The attributes of a \<^verbatim>\<open>MonitoringService\<close> instance.\<close>

record monitoring_service =
  private_key :: string
  address :: address
  monitor_contract :: address
  registry_address :: address
  sync_start_block :: int
  required_confirmations :: int
  poll_interval :: int
  open_channels :: "int set"
  token_networks :: "address set"
  token_network_listeners :: "listener list"
  token_network_registry_listener :: listener
  state_db :: state_db
  task_list :: "task list"

text \<open>The events the handlers receive. A registry event carries
  \<^verbatim>\<open>event['args']['token_network_address']\<close>,
  \<^verbatim>\<open>event['args']['token_address']\<close> and
  \<^verbatim>\<open>event['blockNumber']\<close>; a channel event carries
  \<^verbatim>\<open>event['event']\<close>, \<^verbatim>\<open>event['address']\<close>,
  \<^verbatim>\<open>event['blockNumber']\<close> and, under
  \<^verbatim>\<open>event['args']\<close>, the channel identifier and the closing
  participant. The transaction of a channel event is a pair whose second component
  \<^verbatim>\<open>tx[1]\<close> holds the five arguments of the call.\<close>

record registry_event =
  re_token_network_address :: address
  re_token_address :: address
  re_blockNumber :: int

record channel_event =
  ce_event :: string
  ce_address :: address
  ce_blockNumber :: int
  ce_channel_identifier :: int
  ce_closing_participant :: address

record tx_data =
  td_channel_identifier :: int
  td_balance_hash :: string
  td_nonce :: int
  td_additional_hash :: string
  td_signature :: string

type_synonym tx = "string \<times> tx_data"

text \<open>Constants of \<^verbatim>\<open>raiden_contracts.constants\<close>.\<close>

definition CONTRACT_TOKEN_NETWORK :: string where
  "CONTRACT_TOKEN_NETWORK = ''TokenNetwork''"

definition CONTRACT_TOKEN_NETWORK_REGISTRY :: string where
  "CONTRACT_TOKEN_NETWORK_REGISTRY = ''TokenNetworkRegistry''"

definition ChannelEvent_OPENED :: string where
  "ChannelEvent_OPENED = ''ChannelOpened''"

definition ChannelEvent_CLOSED :: string where
  "ChannelEvent_CLOSED = ''ChannelClosed''"

definition ChannelEvent_SETTLED :: string where
  "ChannelEvent_SETTLED = ''ChannelSettled''"

section \<open>The operations of MonitoringService\<close>


text \<open>\<^verbatim>\<open>start_task\<close>: the greenlet is started and appended to
  \<^verbatim>\<open>task_list\<close>.\<close>

definition start_task :: "task \<Rightarrow> monitoring_service \<Rightarrow> monitoring_service" where
  "start_task t s = s\<lparr>task_list := task_list s @ [t]\<rparr>"

text \<open>\<^verbatim>\<open>__init__\<close>. The database object is shared with the
  caller, so the result is the database after the call together with the raised exception or
  the new instance: \<^verbatim>\<open>setup_db\<close> has happened even when a later check
  raises.\<close>

definition init ::
  "env \<Rightarrow> string \<Rightarrow> state_db \<Rightarrow> address \<Rightarrow> address \<Rightarrow> int \<Rightarrow> int \<Rightarrow> int
     \<Rightarrow> state_db \<times> (error + monitoring_service)" where
  "init e private_key0 db registry_address0 monitor_contract_address
        sync_start_block0 required_confirmations0 poll_interval0 =
     (if \<not> is_checksum_address e (private_key_to_address e private_key0)
      then (db, Inl AssertionError)
      else
        let address0 = private_key_to_address e private_key0;
            chain_id = web3_version_network e;
            db1 = (if \<not> db_initialized db
                   then setup_db db chain_id monitor_contract_address address0 else db)
        in if db_chain_id db1 \<noteq> chain_id
           then (db1, Inl (StateDBInvalid ''Chain id doesn't match!''))
           else if \<not> is_same_address e (db_server_address db1) address0
           then (db1, Inl (StateDBInvalid ''Monitor service address doesn't match!''))
           else if \<not> is_same_address e (db_monitoring_contract_address db1)
                       monitor_contract_address
           then (db1, Inl (StateDBInvalid ''Monitoring contract address doesn't match!''))
           else if \<not> is_service_registered e monitor_contract_address address0
           then (db1, Inl (ServiceNotRegistered address0 monitor_contract_address))
           else (db1, Inr
             \<lparr>private_key = private_key0,
              address = address0,
              monitor_contract = monitor_contract_address,
              registry_address = registry_address0,
              sync_start_block = sync_start_block0,
              required_confirmations = required_confirmations0,
              poll_interval = poll_interval0,
              open_channels = {},
              token_networks = {},
              token_network_listeners = [],
              token_network_registry_listener =
                \<lparr>l_contract_name = CONTRACT_TOKEN_NETWORK_REGISTRY,
                 l_contract_address = registry_address0,
                 l_required_confirmations = required_confirmations0,
                 l_poll_interval = poll_interval0,
                 l_sync_start_block = sync_start_block0,
                 l_confirmed_callbacks = [handle_token_network_created_callback],
                 l_started = False\<rparr>,
              state_db = db1,
              task_list = []\<rparr>))"

text \<open>\<^verbatim>\<open>handle_token_network_created\<close>.\<close>

definition handle_token_network_created ::
  "env \<Rightarrow> registry_event \<Rightarrow> monitoring_service \<Rightarrow> error + monitoring_service" where
  "handle_token_network_created e event s =
     (let token_network_address = re_token_network_address event;
          token_address = re_token_address event;
          event_block_number = re_blockNumber event
      in if \<not> is_checksum_address e token_network_address then Inl AssertionError
         else if \<not> is_checksum_address e token_address then Inl AssertionError
         else if token_network_address \<notin> token_networks s
         then
           let token_network_listener =
                 \<lparr>l_contract_name = CONTRACT_TOKEN_NETWORK,
                  l_contract_address = token_network_address,
                  l_required_confirmations = required_confirmations s,
                  l_poll_interval = poll_interval s,
                  l_sync_start_block = event_block_number,
                  l_confirmed_callbacks = [on_channel_event_callback],
                  l_started = True\<rparr>
           in Inr (s\<lparr>token_networks := insert token_network_address (token_networks s),
                     token_network_listeners :=
                       token_network_listeners s @ [token_network_listener]\<rparr>)
         else Inr s)"

text \<open>\<^verbatim>\<open>on_channel_open\<close>.\<close>

definition on_channel_open ::
  "channel_event \<Rightarrow> tx \<Rightarrow> monitoring_service \<Rightarrow> error + monitoring_service" where
  "on_channel_open event tx s =
     (let channel_id = ce_channel_identifier event
      in Inr (s\<lparr>open_channels := insert channel_id (open_channels s)\<rparr>))"

text \<open>\<^verbatim>\<open>on_channel_close\<close>. The balance proof of the closing
  transaction is built first (its constructor may raise); then come the two assertions, the
  early return when the channel is not a key of
  \<^verbatim>\<open>state_db.monitor_requests\<close> (the \<open>None\<close> case of the
  lookup), and otherwise the start of the \<^verbatim>\<open>OnChannelClose\<close> task
  with the stored request and the removal of the channel from
  \<^verbatim>\<open>open_channels\<close>.\<close>

definition tx_balance_proof_args ::
  "env \<Rightarrow> channel_event \<Rightarrow> tx_data \<Rightarrow> balance_proof" where
  "tx_balance_proof_args e event tx_data0 =
     \<lparr>bp_channel_identifier = td_channel_identifier tx_data0,
      bp_token_network_address = ce_address event,
      bp_balance_hash = td_balance_hash tx_data0,
      bp_nonce = td_nonce tx_data0,
      bp_additional_hash = td_additional_hash tx_data0,
      bp_chain_id = web3_version_network e,
      bp_signature = encode_hex e (td_signature tx_data0)\<rparr>"

definition on_channel_close ::
  "env \<Rightarrow> channel_event \<Rightarrow> tx \<Rightarrow> monitoring_service \<Rightarrow> error + monitoring_service" where
  "on_channel_close e event tx s =
     (let closing_participant = ce_closing_participant event;
          channel_id = ce_channel_identifier event;
          tx_data0 = snd tx
      in case BalanceProof e (tx_balance_proof_args e event tx_data0) of
           Inl err \<Rightarrow> Inl err
         | Inr tx_balance_proof \<Rightarrow>
             if \<not> is_address e closing_participant then Inl AssertionError
             else if \<not> is_channel_identifier e channel_id then Inl AssertionError
             else
               (case db_monitor_requests (state_db s) channel_id of
                  None \<Rightarrow> Inr s
                | Some monitor_request0 \<Rightarrow>
                    let s1 = start_task
                          (OnChannelClose (monitor_contract s) monitor_request0 (private_key s)) s
                    in Inr (s1\<lparr>open_channels := open_channels s1 - {channel_id}\<rparr>)))"

text \<open>\<^verbatim>\<open>on_channel_settled\<close>.\<close>

definition on_channel_settled ::
  "channel_event \<Rightarrow> tx \<Rightarrow> monitoring_service \<Rightarrow> error + monitoring_service" where
  "on_channel_settled event tx s =
     (let channel_id = ce_channel_identifier event
      in case db_monitor_requests (state_db s) channel_id of
           None \<Rightarrow> Inr s
         | Some monitor_request0 \<Rightarrow>
             let s1 = start_task
                   (OnChannelSettle monitor_request0 (monitor_contract s) (private_key s)) s
             in Inr (s1\<lparr>state_db :=
                          delete_monitor_request (state_db s1) (ce_channel_identifier event)\<rparr>))"

text \<open>\<^verbatim>\<open>on_channel_event\<close>: dispatch on the name of the event;
  an event with any other name is logged and otherwise ignored.\<close>

definition on_channel_event ::
  "env \<Rightarrow> channel_event \<Rightarrow> tx \<Rightarrow> monitoring_service \<Rightarrow> error + monitoring_service" where
  "on_channel_event e event tx s =
     (let event_name = ce_event event
      in if event_name = ChannelEvent_OPENED then on_channel_open event tx s
         else if event_name = ChannelEvent_CLOSED then on_channel_close e event tx s
         else if event_name = ChannelEvent_SETTLED then on_channel_settled event tx s
         else Inr s)"

text \<open>\<^verbatim>\<open>on_monitor_request\<close>: a request for a channel that is
  not in \<^verbatim>\<open>open_channels\<close> makes the method return; otherwise a
  \<^verbatim>\<open>StoreMonitorRequest\<close> task is started. The method has no
  \<^verbatim>\<open>raise\<close>.\<close>

definition on_monitor_request ::
  "monitor_request \<Rightarrow> monitoring_service \<Rightarrow> error + monitoring_service" where
  "on_monitor_request monitor_request0 s =
     (let channel_id = bp_channel_identifier (mr_balance_proof monitor_request0)
      in if channel_id \<notin> open_channels s then Inr s
         else Inr (start_task (StoreMonitorRequest monitor_request0) s))"

text \<open>\<^verbatim>\<open>on_message_event\<close>.\<close>

definition on_message_event ::
  "message \<Rightarrow> monitoring_service \<Rightarrow> error + monitoring_service" where
  "on_message_event m s =
     (case m of
        MonitorRequestMessage monitor_request0 \<Rightarrow> on_monitor_request monitor_request0 s
      | OtherMessage _ \<Rightarrow> Inr s)"

text \<open>A listener delivers its confirmed events to the callback one after the other; an
  exception raised by the callback is unhandled and ends the program
  (\<^verbatim>\<open>error_handler\<close>), so a run over a list of events stops at the
  first error.\<close>

fun run_callback ::
  "('a \<Rightarrow> monitoring_service \<Rightarrow> error + monitoring_service) \<Rightarrow> 'a list
     \<Rightarrow> monitoring_service \<Rightarrow> error + monitoring_service" where
  "run_callback f [] s = Inr s"
| "run_callback f (x # xs) s =
     (case f x s of Inl err \<Rightarrow> Inl err | Inr s' \<Rightarrow> run_callback f xs s')"

text \<open>The three callbacks through which the instance is driven: the registry listener
  calls \<^verbatim>\<open>handle_token_network_created\<close>, every token network
  listener calls \<^verbatim>\<open>on_channel_event\<close>, and the transport calls
  \<^verbatim>\<open>on_message_event\<close>.\<close>

datatype input =
    RegistryEvent registry_event
  | ChannelEvent channel_event tx
  | TransportMessage message

fun deliver :: "env \<Rightarrow> input \<Rightarrow> monitoring_service \<Rightarrow> error + monitoring_service" where
  "deliver e (RegistryEvent event) s = handle_token_network_created e event s"
| "deliver e (ChannelEvent event tx) s = on_channel_event e event tx s"
| "deliver e (TransportMessage m) s = on_message_event m s"

text \<open>Every known token network has exactly one listener, and every listener belongs
  to a known token network.\<close>

definition one_listener_per_network :: "monitoring_service \<Rightarrow> bool" where
  "one_listener_per_network s \<longleftrightarrow>
     distinct (map l_contract_address (token_network_listeners s))
     \<and> set (map l_contract_address (token_network_listeners s)) = token_networks s"

section \<open>Storing a monitor request\<close>

text \<open>Modelled from the spec: the upsert of a request into the database
  (\<^verbatim>\<open>StateDBSqlite\<close> is not among the sources): the request is stored
  under its key, replacing the request stored there, if any. The server indexes
  \<^verbatim>\<open>state_db.monitor_requests\<close> by channel identifier.\<close>

definition upsert_monitor_request :: "monitor_request \<Rightarrow> state_db \<Rightarrow> state_db" where
  "upsert_monitor_request mr db =
     db\<lparr>db_monitor_requests :=
          (db_monitor_requests db)(bp_channel_identifier (mr_balance_proof mr) \<mapsto> mr)\<rparr>"

text \<open>Modelled from the spec: the run of a
  \<^verbatim>\<open>StoreMonitorRequest\<close> task (monitoring_service/tasks is not among
  the sources). Section 4.F: a received request is validated and on success upserted;
  section 3: only a strictly higher nonce supersedes an existing stored request for the same
  key. The structural, semantic and jurisdiction checks, which need signature recovery, are
  the parameter \<^verbatim>\<open>valid\<close>.\<close>

definition StoreMonitorRequest_run ::
  "(monitor_request \<Rightarrow> bool) \<Rightarrow> monitor_request \<Rightarrow> state_db \<Rightarrow> state_db" where
  "StoreMonitorRequest_run valid mr db =
     (if \<not> valid mr then db
      else case db_monitor_requests db (bp_channel_identifier (mr_balance_proof mr)) of
             None \<Rightarrow> upsert_monitor_request mr db
           | Some stored \<Rightarrow>
               if bp_nonce (mr_balance_proof stored) < bp_nonce (mr_balance_proof mr)
               then upsert_monitor_request mr db
               else db)"

text \<open>Modelled from the spec: request intake from arrival to the end of the spawned
  task. \<^verbatim>\<open>on_monitor_request\<close> is the source's; when it has started
  the \<^verbatim>\<open>StoreMonitorRequest\<close> task, the task runs (modelled above)
  and the main loop \<^verbatim>\<open>_run\<close> removes the completed task from
  \<^verbatim>\<open>task_list\<close>.\<close>

definition intake ::
  "(monitor_request \<Rightarrow> bool) \<Rightarrow> monitor_request \<Rightarrow> monitoring_service
     \<Rightarrow> error + monitoring_service" where
  "intake valid mr s =
     (case on_monitor_request mr s of
        Inl err \<Rightarrow> Inl err
      | Inr s1 \<Rightarrow>
          if task_list s1 = task_list s @ [StoreMonitorRequest mr]
          then Inr (s1\<lparr>state_db := StoreMonitorRequest_run valid mr (state_db s1),
                        task_list := task_list s\<rparr>)
          else Inr s1)"

section \<open>The event-driven engine of the spec\<close>

text \<open>The crash test \<^verbatim>\<open>test_crash.py\<close> drives
  \<^verbatim>\<open>monitoring_service.service.MonitoringService\<close> through
  \<^verbatim>\<open>_process_new_blocks\<close> on a database file. That module, its
  database and its event handlers are not among the sources; this section models them from
  sections 3 and 4 of the spec. Every definition of the section is such a model.\<close>







text \<open>Modelled from the spec: the typed domain events of the decoder (section 4.B),
  each with its origin or token network, its key fields and, last, its block; and the
  synthetic TickAdvanced of the main loop (section 4.D).\<close>

datatype event =
    TokenNetworkCreated address int
  | ChannelOpened address int address address int int
  | ChannelClosed address int address int
  | NonClosingBalanceProofUpdated address int address int int
  | ChannelSettled address int int
  | MonitoringAssistedByMS address int address address int
  | TickAdvanced int

































section \<open>Notions for the crash equivalence\<close>





section \<open>Concrete inputs\<close>

text \<open>A permissive environment on chain 1, a request with nonce 1 for channel 3, and a
  service whose database holds that request.\<close>

definition env0 :: env where
  "env0 = \<lparr>is_address = (\<lambda>a. length a = 42),
           is_checksum_address = (\<lambda>a. length a = 42),
           is_same_address = (\<lambda>a b. a = b),
           is_channel_identifier = (\<lambda>c. 0 < c),
           private_key_to_address = (\<lambda>k. ''0x'' @ take 40 k),
           encode_hex = (\<lambda>b. ''0x'' @ b),
           BalanceProof = Inr,
           web3_version_network = 1,
           is_service_registered = (\<lambda>c a. True)\<rparr>"

definition private_key0 :: string where
  "private_key0 = ''c0c0c0c0c0c0c0c0c0c0c0c0c0c0c0c0c0c0c0c0c0c0c0c0c0c0c0c0c0c0c0c0''"

definition address0 :: address where
  "address0 = ''0xc0c0c0c0c0c0c0c0c0c0c0c0c0c0c0c0c0c0c0c0''"

definition monitor_contract0 :: address where
  "monitor_contract0 = ''0xa1a1a1a1a1a1a1a1a1a1a1a1a1a1a1a1a1a1a1a1''"

definition registry0 :: address where
  "registry0 = ''0xb2b2b2b2b2b2b2b2b2b2b2b2b2b2b2b2b2b2b2b2''"

definition token_network0 :: address where
  "token_network0 = ''0xd3d3d3d3d3d3d3d3d3d3d3d3d3d3d3d3d3d3d3d3''"

definition token0 :: address where
  "token0 = ''0xf5f5f5f5f5f5f5f5f5f5f5f5f5f5f5f5f5f5f5f5''"

definition participant1 :: address where
  "participant1 = ''0xe4e4e4e4e4e4e4e4e4e4e4e4e4e4e4e4e4e4e4e4''"

definition monitor_request_for :: "int \<Rightarrow> int \<Rightarrow> monitor_request" where
  "monitor_request_for channel_id n =
     \<lparr>mr_balance_proof =
        \<lparr>bp_channel_identifier = channel_id,
         bp_token_network_address = token_network0,
         bp_balance_hash = ''0x01'',
         bp_nonce = n,
         bp_additional_hash = ''0x00'',
         bp_chain_id = 1,
         bp_signature = ''0x02''\<rparr>,
      mr_non_closing_signature = ''0x03'',
      mr_reward_amount = 5,
      mr_monitor_address = monitor_contract0,
      mr_reward_proof_signature = ''0x04''\<rparr>"

definition db0 :: state_db where
  "db0 = \<lparr>db_initialized = True, db_chain_id = 1, db_server_address = address0,
          db_monitoring_contract_address = monitor_contract0,
          db_monitor_requests = Map.empty\<rparr>"

definition db_stored :: state_db where
  "db_stored = db0\<lparr>db_monitor_requests := [3 \<mapsto> monitor_request_for 3 1]\<rparr>"

definition service_on :: "state_db \<Rightarrow> monitoring_service" where
  "service_on db =
     \<lparr>private_key = private_key0,
      address = address0,
      monitor_contract = monitor_contract0,
      registry_address = registry0,
      sync_start_block = 0,
      required_confirmations = 8,
      poll_interval = 10,
      open_channels = {},
      token_networks = {},
      token_network_listeners = [],
      token_network_registry_listener =
        \<lparr>l_contract_name = CONTRACT_TOKEN_NETWORK_REGISTRY,
         l_contract_address = registry0,
         l_required_confirmations = 8,
         l_poll_interval = 10,
         l_sync_start_block = 0,
         l_confirmed_callbacks = [handle_token_network_created_callback],
         l_started = False\<rparr>,
      state_db = db,
      task_list = []\<rparr>"

definition channel_event_of :: "string \<Rightarrow> int \<Rightarrow> int \<Rightarrow> channel_event" where
  "channel_event_of name channel_id block =
     \<lparr>ce_event = name, ce_address = token_network0, ce_blockNumber = block,
      ce_channel_identifier = channel_id, ce_closing_participant = participant1\<rparr>"

definition close_tx :: "int \<Rightarrow> tx" where
  "close_tx channel_id =
     (''closeChannel'',
      \<lparr>td_channel_identifier = channel_id, td_balance_hash = ''0x00'', td_nonce = 0,
       td_additional_hash = ''0x00'', td_signature = ''00''\<rparr>)"

definition registry_event_of :: "address \<Rightarrow> int \<Rightarrow> registry_event" where
  "registry_event_of token_network block =
     \<lparr>re_token_network_address = token_network, re_token_address = token0,
      re_blockNumber = block\<rparr>"

definition listener_of :: "address \<Rightarrow> int \<Rightarrow> listener" where
  "listener_of token_network block =
     \<lparr>l_contract_name = CONTRACT_TOKEN_NETWORK,
      l_contract_address = token_network,
      l_required_confirmations = 8,
      l_poll_interval = 10,
      l_sync_start_block = block,
      l_confirmed_callbacks = [on_channel_event_callback],
      l_started = True\<rparr>"







section \<open>Properties\<close>

text \<open>An \<open>Inl\<close> result of a handler stands for the raised exception with
  the instance as it was before the call: no handler changes an attribute before its last
  \<^verbatim>\<open>assert\<close>.\<close>

lemmas concrete_defs = private_key0_def address0_def monitor_contract0_def registry0_def
  token_network0_def token0_def participant1_def monitor_request_for_def db0_def db_stored_def
  service_on_def channel_event_of_def close_tx_def env0_def

text \<open>C9. When a ChannelClosed event arrives for a channel with no stored monitor
  request, \<^verbatim>\<open>on_channel_close\<close> leaves the whole instance unchanged
  whenever it returns, and it returns when the balance proof is built and the two assertions
  hold. The channel identifier therefore stays in \<^verbatim>\<open>open_channels\<close>
  if it was there, and a monitor request for that channel arriving after the close is
  accepted as for an open channel: the \<^verbatim>\<open>StoreMonitorRequest\<close> task
  is started.\<close>

theorem close_without_request_keeps_state:
  assumes "ce_channel_identifier event \<notin> dom (db_monitor_requests (state_db s))"
  shows "(\<forall>s'. on_channel_close e event tx s = Inr s' \<longrightarrow> s' = s)
       \<and> (BalanceProof e (tx_balance_proof_args e event (snd tx)) = Inr bp
            \<and> is_address e (ce_closing_participant event)
            \<and> is_channel_identifier e (ce_channel_identifier event)
          \<longrightarrow> on_channel_close e event tx s = Inr s)
       \<and> (ce_channel_identifier event \<in> open_channels s
            \<and> bp_channel_identifier (mr_balance_proof mr) = ce_channel_identifier event
          \<longrightarrow> on_monitor_request mr s = Inr (start_task (StoreMonitorRequest mr) s))"
  using assms
  by (auto simp: on_channel_close_def on_monitor_request_def Let_def
      split: sum.splits if_splits)

text \<open>C9, at a concrete input.\<close>

theorem close_without_request_keeps_state_witness:
  "3 \<notin> dom (db_monitor_requests db0)
   \<and> on_channel_close env0 (channel_event_of ChannelEvent_CLOSED 3 10) (close_tx 3)
        ((service_on db0)\<lparr>open_channels := {3}\<rparr>)
      = Inr ((service_on db0)\<lparr>open_channels := {3}\<rparr>)
   \<and> on_monitor_request (monitor_request_for 3 1) ((service_on db0)\<lparr>open_channels := {3}\<rparr>)
      = Inr ((service_on db0)\<lparr>open_channels := {3},
                              task_list := [StoreMonitorRequest (monitor_request_for 3 1)]\<rparr>)"
  using close_without_request_keeps_state
    [of "channel_event_of ChannelEvent_CLOSED 3 10" "(service_on db0)\<lparr>open_channels := {3}\<rparr>"
        env0 "close_tx 3" "tx_balance_proof_args env0 (channel_event_of ChannelEvent_CLOSED 3 10) (snd (close_tx 3))"
        "monitor_request_for 3 1"]
  by (simp add: concrete_defs start_task_def)

text \<open>C2 (as amended). For every ChannelClosed event for a channel with a stored
  monitor request, when the balance proof is built and the two assertions hold,
  \<^verbatim>\<open>on_channel_close\<close> itself starts the
  \<^verbatim>\<open>OnChannelClose\<close> task, which submits the stored request, and
  removes the channel from \<^verbatim>\<open>open_channels\<close>. The task is started in
  the handler invocation, whatever the block of the event: the server has no queue of
  delayed actions, and neither a settle timeout nor a monitor fraction takes part.\<close>

theorem close_with_request_starts_task_at_once:
  assumes "db_monitor_requests (state_db s) (ce_channel_identifier event) = Some mr"
      and "BalanceProof e (tx_balance_proof_args e event (snd tx)) = Inr bp"
      and "is_address e (ce_closing_participant event)"
      and "is_channel_identifier e (ce_channel_identifier event)"
  shows "on_channel_close e event tx s =
           Inr (s\<lparr>task_list := task_list s @ [OnChannelClose (monitor_contract s) mr (private_key s)],
                  open_channels := open_channels s - {ce_channel_identifier event}\<rparr>)"
  using assms
  by (auto simp: on_channel_close_def start_task_def Let_def)

text \<open>C2, at a concrete input.\<close>

theorem close_with_request_starts_task_at_once_witness:
  "db_monitor_requests (state_db ((service_on db_stored)\<lparr>open_channels := {3}\<rparr>)) 3
     = Some (monitor_request_for 3 1)
   \<and> on_channel_close env0 (channel_event_of ChannelEvent_CLOSED 3 10) (close_tx 3)
        ((service_on db_stored)\<lparr>open_channels := {3}\<rparr>)
      = Inr ((service_on db_stored)
               \<lparr>open_channels := {},
                task_list := [OnChannelClose monitor_contract0 (monitor_request_for 3 1) private_key0]\<rparr>)"
  using close_with_request_starts_task_at_once
    [of "(service_on db_stored)\<lparr>open_channels := {3}\<rparr>"
        "channel_event_of ChannelEvent_CLOSED 3 10" "monitor_request_for 3 1" env0 "close_tx 3"
        "tx_balance_proof_args env0 (channel_event_of ChannelEvent_CLOSED 3 10) (snd (close_tx 3))"]
  by (simp add: concrete_defs)

text \<open>C2 as stated fails: for the close at block 10 of channel 3, whose request is
  stored, the submission task has been started when the handler returns, not deferred to
  block 26.\<close>

theorem monitoring_not_delayed_counterexample:
  "ce_blockNumber (channel_event_of ChannelEvent_CLOSED 3 10) = 10
   \<and> (10::int) < 10 + (20 * 8) div 10
   \<and> on_channel_close env0 (channel_event_of ChannelEvent_CLOSED 3 10) (close_tx 3)
        ((service_on db_stored)\<lparr>open_channels := {3}\<rparr>)
      = Inr ((service_on db_stored)
               \<lparr>open_channels := {},
                task_list := [OnChannelClose monitor_contract0 (monitor_request_for 3 1) private_key0]\<rparr>)"
  by (simp add: on_channel_close_def start_task_def Let_def concrete_defs)

text \<open>C3 (as amended). For every ChannelSettled event,
  \<^verbatim>\<open>on_channel_settled\<close> returns normally; it starts the reward claim
  task \<^verbatim>\<open>OnChannelSettle\<close> at once if a monitor request is stored for
  the channel, and leaves the instance unchanged if none is stored. Events with a name other
  than ChannelOpened, ChannelClosed and ChannelSettled, such as MonitoringAssistedByMS, are
  ignored by \<^verbatim>\<open>on_channel_event\<close>, so they have no influence on the
  reward claim; there is no delay of \<^verbatim>\<open>claim_delay_blocks\<close>.\<close>

theorem settle_starts_claim_iff_request_stored:
  "(\<exists>s'. on_channel_settled event tx s = Inr s'
      \<and> (case db_monitor_requests (state_db s) (ce_channel_identifier event) of
            None \<Rightarrow> s' = s
          | Some mr \<Rightarrow>
              task_list s' = task_list s @ [OnChannelSettle mr (monitor_contract s) (private_key s)]))
   \<and> (ce_event other \<noteq> ChannelEvent_OPENED \<and> ce_event other \<noteq> ChannelEvent_CLOSED
        \<and> ce_event other \<noteq> ChannelEvent_SETTLED
      \<longrightarrow> on_channel_event e other tx' s = Inr s)"
  by (auto simp: on_channel_settled_def on_channel_event_def start_task_def Let_def
      split: option.splits)

text \<open>C3, at a concrete input.\<close>

theorem settle_starts_claim_iff_request_stored_witness:
  "on_channel_settled (channel_event_of ChannelEvent_SETTLED 3 30) (close_tx 3) (service_on db0)
     = Inr (service_on db0)
   \<and> task_list (projr (on_channel_settled (channel_event_of ChannelEvent_SETTLED 3 30) (close_tx 3)
        (service_on db_stored)))
     = [OnChannelSettle (monitor_request_for 3 1) monitor_contract0 private_key0]
   \<and> on_channel_event env0 (channel_event_of ''MonitoringAssistedByMS'' 3 27) (close_tx 3)
        (service_on db_stored) = Inr (service_on db_stored)"
  using settle_starts_claim_iff_request_stored
    [of "channel_event_of ChannelEvent_SETTLED 3 30" "close_tx 3" "service_on db0"
        "channel_event_of ''MonitoringAssistedByMS'' 3 27" env0 "close_tx 3"]
    settle_starts_claim_iff_request_stored
    [of "channel_event_of ChannelEvent_SETTLED 3 30" "close_tx 3" "service_on db_stored"
        "channel_event_of ''MonitoringAssistedByMS'' 3 27" env0 "close_tx 3"]
  by (auto simp: concrete_defs ChannelEvent_OPENED_def ChannelEvent_CLOSED_def
      ChannelEvent_SETTLED_def)

text \<open>C3 as stated fails: on an instance whose database holds a request for channel 3,
  the events ChannelOpened, ChannelClosed and ChannelSettled of channel 3, with no
  MonitoringAssistedByMS event among them, end with the reward claim task started.\<close>

theorem reward_claim_without_assistance_counterexample:
  "run_callback (case_prod (on_channel_event env0))
     [(channel_event_of ChannelEvent_OPENED 3 2, close_tx 3),
      (channel_event_of ChannelEvent_CLOSED 3 10, close_tx 3),
      (channel_event_of ChannelEvent_SETTLED 3 30, close_tx 3)]
     (service_on db_stored)
   = Inr ((service_on db0)
            \<lparr>task_list := [OnChannelClose monitor_contract0 (monitor_request_for 3 1) private_key0,
                           OnChannelSettle (monitor_request_for 3 1) monitor_contract0 private_key0]\<rparr>)"
  by (simp add: on_channel_event_def on_channel_open_def on_channel_close_def
      on_channel_settled_def start_task_def delete_monitor_request_def Let_def concrete_defs
      ChannelEvent_OPENED_def ChannelEvent_CLOSED_def ChannelEvent_SETTLED_def)

text \<open>C4 (as amended). \<^verbatim>\<open>on_monitor_request\<close> always returns
  normally and never changes the database or \<^verbatim>\<open>open_channels\<close>. When
  the channel identifier of the request is in \<^verbatim>\<open>open_channels\<close> it
  starts a \<^verbatim>\<open>StoreMonitorRequest\<close> task for the request; otherwise
  the request is dropped: the instance is unchanged and no error is raised. The handler
  consults no nonce.\<close>

theorem intake_starts_store_task_iff_open:
  "\<exists>s'. on_monitor_request mr s = Inr s'
     \<and> state_db s' = state_db s
     \<and> open_channels s' = open_channels s
     \<and> (bp_channel_identifier (mr_balance_proof mr) \<in> open_channels s
          \<longrightarrow> task_list s' = task_list s @ [StoreMonitorRequest mr])
     \<and> (bp_channel_identifier (mr_balance_proof mr) \<notin> open_channels s \<longrightarrow> s' = s)"
  by (simp add: on_monitor_request_def start_task_def Let_def)

text \<open>C4, at a concrete input.\<close>

theorem intake_starts_store_task_iff_open_witness:
  "task_list (projr (on_monitor_request (monitor_request_for 3 1)
       ((service_on db0)\<lparr>open_channels := {3}\<rparr>)))
     = [StoreMonitorRequest (monitor_request_for 3 1)]
   \<and> projr (on_monitor_request (monitor_request_for 999 1)
       ((service_on db0)\<lparr>open_channels := {3}\<rparr>))
     = (service_on db0)\<lparr>open_channels := {3}\<rparr>"
  using intake_starts_store_task_iff_open
    [of "monitor_request_for 3 1" "(service_on db0)\<lparr>open_channels := {3}\<rparr>"]
    intake_starts_store_task_iff_open
    [of "monitor_request_for 999 1" "(service_on db0)\<lparr>open_channels := {3}\<rparr>"]
  by (auto simp: concrete_defs)

text \<open>C4 as stated fails: a request for channel 999, which was never opened, is
  dropped with a normal return and no error; and after the close of channel 3, whose request
  with nonce 1 is stored, a request with the higher nonce 2 is dropped in the same way.\<close>

theorem intake_typed_error_counterexample:
  "on_monitor_request (monitor_request_for 999 1) (service_on db0) = Inr (service_on db0)
   \<and> on_channel_close env0 (channel_event_of ChannelEvent_CLOSED 3 10) (close_tx 3)
        ((service_on db_stored)\<lparr>open_channels := {3}\<rparr>)
      = Inr ((service_on db_stored)
               \<lparr>open_channels := {},
                task_list := [OnChannelClose monitor_contract0 (monitor_request_for 3 1) private_key0]\<rparr>)
   \<and> bp_nonce (mr_balance_proof (monitor_request_for 3 1))
        < bp_nonce (mr_balance_proof (monitor_request_for 3 2))
   \<and> on_monitor_request (monitor_request_for 3 2)
        ((service_on db_stored)
           \<lparr>open_channels := {},
            task_list := [OnChannelClose monitor_contract0 (monitor_request_for 3 1) private_key0]\<rparr>)
      = Inr ((service_on db_stored)
               \<lparr>open_channels := {},
                task_list := [OnChannelClose monitor_contract0 (monitor_request_for 3 1) private_key0]\<rparr>)"
  by (simp add: on_monitor_request_def on_channel_close_def start_task_def Let_def concrete_defs)

text \<open>C6. When the database is initialised and the chain id of the node, the address
  of the service or the address of the monitoring contract disagrees with the value recorded
  in the database, the constructor raises: it returns no instance, so no listener is created
  or started, and the database is left as it was. When the assertion on the address of the
  service holds, the exception is \<^verbatim>\<open>StateDBInvalid\<close>.\<close>

theorem init_mismatch_raises:
  assumes "db_initialized db"
      and "db_chain_id db \<noteq> web3_version_network e
           \<or> \<not> is_same_address e (db_server_address db) (private_key_to_address e pk)
           \<or> \<not> is_same_address e (db_monitoring_contract_address db) mc"
  shows "\<exists>err. init e pk db reg mc ssb rc pi = (db, Inl err)
           \<and> (is_checksum_address e (private_key_to_address e pk)
                \<longrightarrow> err \<in> {StateDBInvalid ''Chain id doesn't match!'',
                            StateDBInvalid ''Monitor service address doesn't match!'',
                            StateDBInvalid ''Monitoring contract address doesn't match!''})"
  using assms by (auto simp: init_def Let_def)

text \<open>C6, at a concrete input.\<close>

theorem init_mismatch_raises_witness:
  "db_initialized db0 \<and> db_chain_id db0 \<noteq> web3_version_network (env0\<lparr>web3_version_network := 5\<rparr>)
   \<and> init (env0\<lparr>web3_version_network := 5\<rparr>) private_key0 db0 registry0 monitor_contract0 0 8 10
       = (db0, Inl (StateDBInvalid ''Chain id doesn't match!''))"
  using init_mismatch_raises
    [of db0 "env0\<lparr>web3_version_network := 5\<rparr>" private_key0 monitor_contract0 registry0 0 8 10]
  by (simp add: init_def Let_def concrete_defs)

text \<open>C7 (as amended). A ChannelClosed event for a channel that is not in
  \<^verbatim>\<open>open_channels\<close> is handled like any other: when the balance proof
  is built and the two assertions hold, \<^verbatim>\<open>on_channel_close\<close> returns
  normally, with the instance unchanged if no monitor request is stored for the channel, and
  with the \<^verbatim>\<open>OnChannelClose\<close> task started if one is stored. No
  exception is raised for the unknown channel.\<close>

theorem close_of_unknown_channel_returns:
  assumes "ce_channel_identifier event \<notin> open_channels s"
      and "BalanceProof e (tx_balance_proof_args e event (snd tx)) = Inr bp"
      and "is_address e (ce_closing_participant event)"
      and "is_channel_identifier e (ce_channel_identifier event)"
  shows "on_channel_close e event tx s =
           Inr (case db_monitor_requests (state_db s) (ce_channel_identifier event) of
                  None \<Rightarrow> s
                | Some mr \<Rightarrow>
                    s\<lparr>task_list :=
                        task_list s @ [OnChannelClose (monitor_contract s) mr (private_key s)]\<rparr>)"
  using assms
  by (auto simp: on_channel_close_def start_task_def Let_def split: option.splits)

text \<open>C7, at a concrete input.\<close>

theorem close_of_unknown_channel_returns_witness:
  "999 \<notin> open_channels (service_on db0)
   \<and> on_channel_close env0 (channel_event_of ChannelEvent_CLOSED 999 10) (close_tx 999)
        (service_on db0) = Inr (service_on db0)"
  using close_of_unknown_channel_returns
    [of "channel_event_of ChannelEvent_CLOSED 999 10" "service_on db0" env0 "close_tx 999"
        "tx_balance_proof_args env0 (channel_event_of ChannelEvent_CLOSED 999 10) (snd (close_tx 999))"]
  by (simp add: concrete_defs)

text \<open>C7 as stated fails: on a new instance, which has processed no ChannelOpened
  event, the close of channel 999 returns normally, and the close of channel 3, for which
  the database holds a request, starts the monitor submission.\<close>

theorem unknown_channel_violation_counterexample:
  "999 \<notin> open_channels (service_on db0)
   \<and> on_channel_close env0 (channel_event_of ChannelEvent_CLOSED 999 10) (close_tx 999)
        (service_on db0) = Inr (service_on db0)
   \<and> 3 \<notin> open_channels (service_on db_stored)
   \<and> on_channel_close env0 (channel_event_of ChannelEvent_CLOSED 3 10) (close_tx 3)
        (service_on db_stored)
      = Inr ((service_on db_stored)
               \<lparr>task_list := [OnChannelClose monitor_contract0 (monitor_request_for 3 1) private_key0]\<rparr>)"
  by (simp add: on_channel_close_def start_task_def Let_def concrete_defs)

text \<open>Lemmas on the token network listeners.\<close>

lemma handle_token_network_created_known:
  assumes "re_token_network_address event \<in> token_networks s"
      and "handle_token_network_created e event s = Inr s'"
  shows "s' = s"
  using assms by (auto simp: handle_token_network_created_def Let_def split: if_splits)

lemma handle_token_network_created_adds:
  assumes "handle_token_network_created e event s = Inr s'"
  shows "re_token_network_address event \<in> token_networks s'"
  using assms by (auto simp: handle_token_network_created_def Let_def split: if_splits)

lemma handle_token_network_created_inv:
  assumes "one_listener_per_network s"
      and "handle_token_network_created e event s = Inr s'"
  shows "one_listener_per_network s'"
proof (cases "re_token_network_address event \<in> token_networks s")
  case True
  from True assms(2) have "s' = s" by (rule handle_token_network_created_known)
  with assms(1) show ?thesis by simp
next
  case False
  let ?ls = "map l_contract_address (token_network_listeners s)"
  from assms(1) have d: "distinct ?ls" and eq: "set ?ls = token_networks s"
    by (simp_all add: one_listener_per_network_def)
  from False eq have fresh: "re_token_network_address event \<notin> set ?ls" by simp
  from assms(2) False have
    "token_network_listeners s' =
       token_network_listeners s
       @ [\<lparr>l_contract_name = CONTRACT_TOKEN_NETWORK,
           l_contract_address = re_token_network_address event,
           l_required_confirmations = required_confirmations s,
           l_poll_interval = poll_interval s,
           l_sync_start_block = re_blockNumber event,
           l_confirmed_callbacks = [on_channel_event_callback],
           l_started = True\<rparr>]"
    and "token_networks s' = insert (re_token_network_address event) (token_networks s)"
    by (auto simp: handle_token_network_created_def Let_def split: if_splits)
  with d eq fresh show ?thesis
    unfolding one_listener_per_network_def by auto
qed

lemma on_channel_event_networks:
  assumes "on_channel_event e event tx s = Inr s'"
  shows "token_networks s' = token_networks s
         \<and> token_network_listeners s' = token_network_listeners s"
  using assms
  by (auto simp: on_channel_event_def on_channel_open_def on_channel_close_def
      on_channel_settled_def start_task_def Let_def
      split: if_splits sum.splits option.splits)

lemma on_message_event_networks:
  assumes "on_message_event m s = Inr s'"
  shows "token_networks s' = token_networks s
         \<and> token_network_listeners s' = token_network_listeners s"
  using assms
  by (auto simp: on_message_event_def on_monitor_request_def start_task_def Let_def
      split: if_splits message.splits)

lemma deliver_inv:
  assumes "one_listener_per_network s" and "deliver e i s = Inr s'"
  shows "one_listener_per_network s'"
proof (cases i)
  case (RegistryEvent event)
  with assms show ?thesis by (simp add: handle_token_network_created_inv)
next
  case (ChannelEvent event tx)
  with assms on_channel_event_networks [of e event tx s s'] show ?thesis
    by (simp add: one_listener_per_network_def)
next
  case (TransportMessage m)
  with assms on_message_event_networks [of m s s'] show ?thesis
    by (simp add: one_listener_per_network_def)
qed

lemma run_deliver_inv:
  assumes "one_listener_per_network s" and "run_callback (deliver e) inputs s = Inr s'"
  shows "one_listener_per_network s'"
  using assms
proof (induction inputs arbitrary: s)
  case Nil
  then show ?case by simp
next
  case (Cons i inputs)
  then show ?case by (auto split: sum.splits dest: deliver_inv)
qed

lemma init_one_listener_per_network:
  assumes "init e pk db reg mc ssb rc pi = (db', Inr s)"
  shows "one_listener_per_network s"
  using assms by (auto simp: init_def one_listener_per_network_def Let_def split: if_splits)

text \<open>C8. \<^verbatim>\<open>handle_token_network_created\<close> is idempotent on
  replay: an event for a token network that is already known leaves the instance unchanged
  whenever the handler returns; after an event has been handled, a further event for the
  same token network (at any block, with a checksummed token address) returns the same
  instance; and in every state reached from a constructed instance by registry events,
  channel events and messages, the listeners have pairwise different contract addresses and
  these addresses are exactly the known token networks.\<close>

theorem token_network_created_idempotent:
  "(re_token_network_address event \<in> token_networks s
      \<longrightarrow> (\<forall>s'. handle_token_network_created e event s = Inr s' \<longrightarrow> s' = s))
   \<and> (\<forall>s1 (event' :: registry_event). handle_token_network_created e event s = Inr s1
         \<and> re_token_network_address event' = re_token_network_address event
         \<and> is_checksum_address e (re_token_address event')
       \<longrightarrow> handle_token_network_created e event' s1 = Inr s1)
   \<and> (\<forall>db' s0 inputs s'. init e pk db reg mc ssb rc pi = (db', Inr s0)
         \<and> run_callback (deliver e) inputs s0 = Inr s'
       \<longrightarrow> distinct (map l_contract_address (token_network_listeners s'))
           \<and> set (map l_contract_address (token_network_listeners s')) = token_networks s')"
proof (intro conjI allI impI)
  fix s'
  assume "re_token_network_address event \<in> token_networks s"
     and "handle_token_network_created e event s = Inr s'"
  then show "s' = s" by (rule handle_token_network_created_known)
next
  fix s1 and event' :: registry_event
  assume a: "handle_token_network_created e event s = Inr s1
     \<and> re_token_network_address event' = re_token_network_address event
     \<and> is_checksum_address e (re_token_address event')"
  then have known: "re_token_network_address event' \<in> token_networks s1"
    using handle_token_network_created_adds [of e event s s1] by simp
  from a have "is_checksum_address e (re_token_network_address event')"
    by (auto simp: handle_token_network_created_def Let_def split: if_splits)
  with a known show "handle_token_network_created e event' s1 = Inr s1"
    by (simp add: handle_token_network_created_def Let_def)
next
  fix db' s0 inputs s'
  assume a: "init e pk db reg mc ssb rc pi = (db', Inr s0)
     \<and> run_callback (deliver e) inputs s0 = Inr s'"
  then have "one_listener_per_network s0" by (auto dest: init_one_listener_per_network)
  with a have "one_listener_per_network s'" by (auto dest: run_deliver_inv)
  then show "distinct (map l_contract_address (token_network_listeners s'))"
    and "set (map l_contract_address (token_network_listeners s')) = token_networks s'"
    by (simp_all add: one_listener_per_network_def)
qed

text \<open>C8, at a concrete input.\<close>

theorem token_network_created_idempotent_witness:
  "handle_token_network_created env0 (registry_event_of token_network0 1) (service_on db0)
     = Inr ((service_on db0)\<lparr>token_networks := {token_network0},
                              token_network_listeners := [listener_of token_network0 1]\<rparr>)
   \<and> handle_token_network_created env0 (registry_event_of token_network0 7)
        ((service_on db0)\<lparr>token_networks := {token_network0},
                           token_network_listeners := [listener_of token_network0 1]\<rparr>)
     = Inr ((service_on db0)\<lparr>token_networks := {token_network0},
                              token_network_listeners := [listener_of token_network0 1]\<rparr>)
   \<and> init env0 private_key0 db0 registry0 monitor_contract0 0 8 10 = (db0, Inr (service_on db0))
   \<and> run_callback (deliver env0)
        [RegistryEvent (registry_event_of token_network0 1),
         RegistryEvent (registry_event_of token_network0 7)] (service_on db0)
     = Inr ((service_on db0)\<lparr>token_networks := {token_network0},
                              token_network_listeners := [listener_of token_network0 1]\<rparr>)
   \<and> distinct (map l_contract_address [listener_of token_network0 1])"
  using token_network_created_idempotent
    [of "registry_event_of token_network0 1" "service_on db0" env0 private_key0 db0 registry0
        monitor_contract0 0 8 10]
  by (simp add: handle_token_network_created_def init_def Let_def concrete_defs
      registry_event_of_def listener_of_def)

text \<open>C10. For every ChannelSettled event for a channel with a stored monitor request,
  \<^verbatim>\<open>on_channel_settled\<close> returns normally, starts the
  \<^verbatim>\<open>OnChannelSettle\<close> task with that request, and deletes the request
  in the same invocation: afterwards no request is stored for the channel identifier, and
  the requests of the other channels are as before.\<close>

theorem settle_deletes_stored_request:
  assumes "db_monitor_requests (state_db s) (ce_channel_identifier event) = Some mr"
  shows "\<exists>s'. on_channel_settled event tx s = Inr s'
           \<and> task_list s' = task_list s @ [OnChannelSettle mr (monitor_contract s) (private_key s)]
           \<and> db_monitor_requests (state_db s') (ce_channel_identifier event) = None
           \<and> (\<forall>c. c \<noteq> ce_channel_identifier event
                \<longrightarrow> db_monitor_requests (state_db s') c = db_monitor_requests (state_db s) c)"
  using assms
  by (simp add: on_channel_settled_def start_task_def delete_monitor_request_def Let_def)

text \<open>C10, at a concrete input.\<close>

theorem settle_deletes_stored_request_witness:
  "db_monitor_requests (state_db (service_on db_stored)) 3 = Some (monitor_request_for 3 1)
   \<and> on_channel_settled (channel_event_of ChannelEvent_SETTLED 3 30) (close_tx 3)
        (service_on db_stored)
      = Inr ((service_on db0)
               \<lparr>task_list := [OnChannelSettle (monitor_request_for 3 1) monitor_contract0 private_key0]\<rparr>)"
  using settle_deletes_stored_request
    [of "service_on db_stored" "channel_event_of ChannelEvent_SETTLED 3 30"
        "monitor_request_for 3 1" "close_tx 3"]
  by (simp add: on_channel_settled_def start_task_def delete_monitor_request_def Let_def
      concrete_defs)

text \<open>C5. Monotone nonce: when a request is stored for the channel of an incoming
  request, intake of a request whose nonce is not strictly greater than the stored nonce is
  a no-op, the whole instance with its database being as before; and whenever intake leaves
  another request stored for that channel than before, the incoming nonce is strictly
  greater than the stored one and the incoming request is the one stored.\<close>

theorem stale_request_is_noop:
  assumes "db_monitor_requests (state_db s) (bp_channel_identifier (mr_balance_proof mr))
             = Some stored"
  shows "(bp_nonce (mr_balance_proof mr) \<le> bp_nonce (mr_balance_proof stored)
            \<longrightarrow> intake valid mr s = Inr s)
       \<and> (\<forall>s'. intake valid mr s = Inr s'
              \<and> db_monitor_requests (state_db s') (bp_channel_identifier (mr_balance_proof mr))
                  \<noteq> Some stored
            \<longrightarrow> bp_nonce (mr_balance_proof stored) < bp_nonce (mr_balance_proof mr)
                \<and> db_monitor_requests (state_db s') (bp_channel_identifier (mr_balance_proof mr))
                    = Some mr)"
  using assms
  by (auto simp: intake_def on_monitor_request_def start_task_def StoreMonitorRequest_run_def
      upsert_monitor_request_def Let_def split: if_splits)

text \<open>C5, at a concrete input: with a request of nonce 5 stored, intake of nonce 3
  changes nothing and intake of nonce 6 supersedes it.\<close>

theorem stale_request_is_noop_witness:
  "db_monitor_requests
       (state_db ((service_on (db0\<lparr>db_monitor_requests := [3 \<mapsto> monitor_request_for 3 5]\<rparr>))
                    \<lparr>open_channels := {3}\<rparr>)) 3
     = Some (monitor_request_for 3 5)
   \<and> intake (\<lambda>mr. True) (monitor_request_for 3 3)
        ((service_on (db0\<lparr>db_monitor_requests := [3 \<mapsto> monitor_request_for 3 5]\<rparr>))
           \<lparr>open_channels := {3}\<rparr>)
      = Inr ((service_on (db0\<lparr>db_monitor_requests := [3 \<mapsto> monitor_request_for 3 5]\<rparr>))
               \<lparr>open_channels := {3}\<rparr>)
   \<and> intake (\<lambda>mr. True) (monitor_request_for 3 6)
        ((service_on (db0\<lparr>db_monitor_requests := [3 \<mapsto> monitor_request_for 3 5]\<rparr>))
           \<lparr>open_channels := {3}\<rparr>)
      = Inr ((service_on (db0\<lparr>db_monitor_requests := [3 \<mapsto> monitor_request_for 3 6]\<rparr>))
               \<lparr>open_channels := {3}\<rparr>)"
  using stale_request_is_noop
    [of "(service_on (db0\<lparr>db_monitor_requests := [3 \<mapsto> monitor_request_for 3 5]\<rparr>))
           \<lparr>open_channels := {3}\<rparr>"
        "monitor_request_for 3 3" "monitor_request_for 3 5" "\<lambda>mr. True"]
  by (simp add: intake_def on_monitor_request_def start_task_def StoreMonitorRequest_run_def
      upsert_monitor_request_def Let_def concrete_defs)



















end
